theory Spec2Isabelle
  imports Main "HOL-Library.Log_Nat"
begin

section \<open>Python floats\<close>

text \<open>
  The amounts of \<^verbatim>\<open>tk2/api.py\<close> (qty, rate, price, outstanding amounts, deductions,
  exchange rates) are Python floats: IEEE 754 binary64 values, every operation rounded to
  nearest, ties to even.  A finite float is a sign, a mantissa \<open>m\<close> and an exponent \<open>e\<close>,
  and stands for \<open>m * 2 ^ e\<close> units of \<open>2 ^ -1074\<close> (the smallest positive float), so
  \<open>0.1 = 0x1.999999999999ap-4\<close> is \<open>Fin False 7205759403792794 1018\<close>.  A float has at
  most 53 mantissa bits and is below \<open>2 ^ 1024\<close>; the operations round their exact result
  to such a value.  The representation is not unique, so floats are compared with
  \<open>feq\<close>, \<open>flt\<close> and \<open>fgt\<close> (Python's \<^verbatim>\<open>==\<close>, \<^verbatim>\<open><\<close>, \<^verbatim>\<open>>\<close>), never with HOL equality.
\<close>

datatype pyfloat = Fin bool nat nat | Inf bool | NaN

definition bitlen :: "nat \<Rightarrow> nat" where
  "bitlen n = floorlog 2 n"

text \<open>\<open>rne n q\<close>: \<open>n / 2 ^ q\<close> rounded to the nearest integer, a tie to the even one.\<close>

definition rne :: "nat \<Rightarrow> nat \<Rightarrow> nat" where
  "rne n q =
     (if q = 0 then n
      else (let d = n div 2 ^ q; r = n mod 2 ^ q; h = 2 ^ (q - 1)
            in if h < r \<or> (r = h \<and> odd d) then d + 1 else d))"

text \<open>
  The largest float is \<open>(2 ^ 53 - 1) * 2 ^ 2045\<close> units; what rounds above it is infinite,
  and what rounds to nothing is a zero of the same sign.
\<close>

definition finite_or_inf :: "bool \<Rightarrow> nat \<Rightarrow> nat \<Rightarrow> pyfloat" where
  "finite_or_inf s m e =
     (if m = 0 then Fin s 0 0 else if 2098 < bitlen m + e then Inf s else Fin s m e)"

text \<open>
  \<open>round_fin s M E\<close>: the float nearest to \<open>M * 2 ^ E\<close> units (\<open>E\<close> may be negative after a
  multiplication).  The last kept bit is the 53rd from the top, and never below one unit.
\<close>

definition round_fin :: "bool \<Rightarrow> nat \<Rightarrow> int \<Rightarrow> pyfloat" where
  "round_fin s M E =
     (let q = max (int (bitlen M) - 53) (- E)
      in if q \<le> 0 then finite_or_inf s M (nat E)
         else (let d = rne M (nat q)
               in if bitlen d \<le> 53 then finite_or_inf s d (nat (E + q))
                  else finite_or_inf s (d div 2) (nat (E + q + 1))))"

definition sgn_int :: "bool \<Rightarrow> nat \<Rightarrow> int" where
  "sgn_int s n = (if s then - int n else int n)"

definition pzero :: pyfloat where
  "pzero = Fin False 0 0"

definition fone :: pyfloat where
  "fone = Fin False 1 1074"

fun fneg :: "pyfloat \<Rightarrow> pyfloat" where
  "fneg NaN = NaN"
| "fneg (Inf s) = Inf (\<not> s)"
| "fneg (Fin s m e) = Fin (\<not> s) m e"

fun fadd :: "pyfloat \<Rightarrow> pyfloat \<Rightarrow> pyfloat" where
  "fadd NaN y = NaN"
| "fadd (Inf s) NaN = NaN"
| "fadd (Fin s m e) NaN = NaN"
| "fadd (Inf s) (Inf t) = (if s = t then Inf s else NaN)"
| "fadd (Inf s) (Fin t n f) = Inf s"
| "fadd (Fin s m e) (Inf t) = Inf t"
| "fadd (Fin s m e) (Fin t n f) =
     (if m = 0 \<and> n = 0 then Fin (s \<and> t) 0 0
      else if m = 0 then round_fin t n (int f)
      else if n = 0 then round_fin s m (int e)
      else (let k = min e f;
                z = sgn_int s (m * 2 ^ (e - k)) + sgn_int t (n * 2 ^ (f - k))
            in if z = 0 then Fin False 0 0 else round_fin (z < 0) (nat \<bar>z\<bar>) (int k)))"

definition fsub :: "pyfloat \<Rightarrow> pyfloat \<Rightarrow> pyfloat" where
  "fsub x y = fadd x (fneg y)"

fun fmul :: "pyfloat \<Rightarrow> pyfloat \<Rightarrow> pyfloat" where
  "fmul NaN y = NaN"
| "fmul (Inf s) NaN = NaN"
| "fmul (Fin s m e) NaN = NaN"
| "fmul (Inf s) (Inf t) = Inf (s \<noteq> t)"
| "fmul (Inf s) (Fin t n f) = (if n = 0 then NaN else Inf (s \<noteq> t))"
| "fmul (Fin s m e) (Inf t) = (if m = 0 then NaN else Inf (s \<noteq> t))"
| "fmul (Fin s m e) (Fin t n f) = round_fin (s \<noteq> t) (m * n) (int e + int f - 1074)"

fun flt :: "pyfloat \<Rightarrow> pyfloat \<Rightarrow> bool" where
  "flt NaN y = False"
| "flt (Inf s) NaN = False"
| "flt (Fin s m e) NaN = False"
| "flt (Inf s) (Inf t) = (s \<and> \<not> t)"
| "flt (Inf s) (Fin t n f) = s"
| "flt (Fin s m e) (Inf t) = (\<not> t)"
| "flt (Fin s m e) (Fin t n f) =
     (let k = min e f in sgn_int s (m * 2 ^ (e - k)) < sgn_int t (n * 2 ^ (f - k)))"

definition fgt :: "pyfloat \<Rightarrow> pyfloat \<Rightarrow> bool" where
  "fgt x y = flt y x"

fun feq :: "pyfloat \<Rightarrow> pyfloat \<Rightarrow> bool" where
  "feq NaN y = False"
| "feq (Inf s) NaN = False"
| "feq (Fin s m e) NaN = False"
| "feq (Inf s) (Inf t) = (s = t)"
| "feq (Inf s) (Fin t n f) = False"
| "feq (Fin s m e) (Inf t) = False"
| "feq (Fin s m e) (Fin t n f) =
     (let k = min e f in sgn_int s (m * 2 ^ (e - k)) = sgn_int t (n * 2 ^ (f - k)))"

definition fne :: "pyfloat \<Rightarrow> pyfloat \<Rightarrow> bool" where
  "fne x y = (\<not> feq x y)"

text \<open>
  Comparison with the int literal \<^verbatim>\<open>0\<close> (\<^verbatim>\<open>x < 0\<close>, \<^verbatim>\<open>x > 0\<close>) and \<^verbatim>\<open>bool(x)\<close>, which is
  false for \<open>0.0\<close> and \<open>-0.0\<close> only: all three read the sign and whether the mantissa is zero.
\<close>

fun fneg0 :: "pyfloat \<Rightarrow> bool" where
  "fneg0 NaN = False"
| "fneg0 (Inf s) = s"
| "fneg0 (Fin s m e) = (s \<and> m \<noteq> 0)"

fun fpos0 :: "pyfloat \<Rightarrow> bool" where
  "fpos0 NaN = False"
| "fpos0 (Inf s) = (\<not> s)"
| "fpos0 (Fin s m e) = (\<not> s \<and> m \<noteq> 0)"

fun ftruthy :: "pyfloat \<Rightarrow> bool" where
  "ftruthy NaN = True"
| "ftruthy (Inf s) = True"
| "ftruthy (Fin s m e) = (m \<noteq> 0)"


text \<open>
  Python's \<^verbatim>\<open>sum\<close> over floats, as the left-to-right additions that start from \<open>0\<close>
  (CPython up to 3.11; the loop of \<^verbatim>\<open>create_sales_invoice\<close> is written this way).
\<close>

definition py_sum :: "pyfloat list \<Rightarrow> pyfloat" where
  "py_sum xs = foldl fadd pzero xs"

section \<open>Python values, strings and errors\<close>

datatype pyval = PNone | PBool bool | PInt int | PFloat pyfloat | PStr string

type_synonym date = nat

datatype error =
    ValidationError string
  | NetMismatch pyfloat pyfloat
  | RateNotFound string date
  | NameError string
  | TypeError
  | ValueError
  | OverflowError
  | DoesNotExistError string string
  | StoreError string

text \<open>
  \<open>ValidationError msg\<close> is \<^verbatim>\<open>frappe.throw(msg)\<close>.  Two messages are built from values and
  are kept as constructors with those values: \<open>NetMismatch computed selected\<close> ("The computed
  net payment (..) does not equal the Selected Total (..).") and \<open>RateNotFound currency date\<close>
  ("Exchange rate not found for .. to NGN on or before ..").  \<open>StoreError\<close> is an exception
  of the store itself.
\<close>

fun truthy :: "pyval \<Rightarrow> bool" where
  "truthy PNone = False"
| "truthy (PBool b) = b"
| "truthy (PInt i) = (i \<noteq> 0)"
| "truthy (PFloat x) = ftruthy x"
| "truthy (PStr s) = (s \<noteq> [])"

text \<open>\<^verbatim>\<open>a or b\<close>.\<close>

definition py_or :: "pyval \<Rightarrow> pyval \<Rightarrow> pyval" where
  "py_or a b = (if truthy a then a else b)"

text \<open>An optional string argument or field (\<^verbatim>\<open>None\<close> or a str) in a condition.\<close>

fun truthy_str :: "string option \<Rightarrow> bool" where
  "truthy_str None = False"
| "truthy_str (Some s) = (s \<noteq> [])"

text \<open>\<^verbatim>\<open>float(i)\<close> of an int: the nearest float, OverflowError when there is none.\<close>

definition float_of_int :: "int \<Rightarrow> error + pyfloat" where
  "float_of_int i =
     (case round_fin (i < 0) (nat \<bar>i\<bar>) 1074 of
        Inf s \<Rightarrow> Inl OverflowError
      | NaN \<Rightarrow> Inl OverflowError
      | Fin s m e \<Rightarrow> Inr (Fin s m e))"

text \<open>
  \<^verbatim>\<open>float(v)\<close>.  Reading a str is Python's own decimal parser, which is passed in as
  \<open>parse\<close> (\<open>None\<close> where Python raises ValueError).
\<close>

fun py_float :: "(string \<Rightarrow> pyfloat option) \<Rightarrow> pyval \<Rightarrow> error + pyfloat" where
  "py_float parse PNone = Inl TypeError"
| "py_float parse (PBool b) = Inr (if b then fone else pzero)"
| "py_float parse (PInt i) = float_of_int i"
| "py_float parse (PFloat x) = Inr x"
| "py_float parse (PStr s) = (case parse s of None \<Rightarrow> Inl ValueError | Some x \<Rightarrow> Inr x)"

text \<open>An int against a float, compared exactly as Python does (no conversion of the int).\<close>

fun feq_int :: "pyfloat \<Rightarrow> int \<Rightarrow> bool" where
  "feq_int NaN i = False"
| "feq_int (Inf s) i = False"
| "feq_int (Fin s m e) i =
     (if 1074 \<le> e then sgn_int s (m * 2 ^ (e - 1074)) = i
      else sgn_int s m = i * 2 ^ (1074 - e))"

definition int_of_bool :: "bool \<Rightarrow> int" where
  "int_of_bool b = (if b then 1 else 0)"

text \<open>\<^verbatim>\<open>a == b\<close>: a bool is the int 0 or 1, numbers compare by value, a str equals a str only.\<close>

fun py_eq :: "pyval \<Rightarrow> pyval \<Rightarrow> bool" where
  "py_eq PNone b = (b = PNone)"
| "py_eq (PStr s) b = (b = PStr s)"
| "py_eq (PBool a) (PBool b) = (a = b)"
| "py_eq (PBool a) (PInt j) = (int_of_bool a = j)"
| "py_eq (PBool a) (PFloat y) = feq_int y (int_of_bool a)"
| "py_eq (PBool a) PNone = False"
| "py_eq (PBool a) (PStr t) = False"
| "py_eq (PInt i) (PBool b) = (i = int_of_bool b)"
| "py_eq (PInt i) (PInt j) = (i = j)"
| "py_eq (PInt i) (PFloat y) = feq_int y i"
| "py_eq (PInt i) PNone = False"
| "py_eq (PInt i) (PStr t) = False"
| "py_eq (PFloat x) (PBool b) = feq_int x (int_of_bool b)"
| "py_eq (PFloat x) (PInt j) = feq_int x j"
| "py_eq (PFloat x) (PFloat y) = feq x y"
| "py_eq (PFloat x) PNone = False"
| "py_eq (PFloat x) (PStr t) = False"

text \<open>\<^verbatim>\<open>x in [..]\<close>: equal to some element.\<close>

fun py_in :: "pyval \<Rightarrow> pyval list \<Rightarrow> bool" where
  "py_in x [] = False"
| "py_in x (y # ys) = (if py_eq x y then True else py_in x ys)"

text \<open>
  \<^verbatim>\<open>str.lower()\<close>.  The letters A to Z are mapped; no other character lowers to a letter of
  \<^verbatim>\<open>comboex\<close>, so the comparison of \<^verbatim>\<open>create_sales_invoice\<close> reads the same here.
\<close>

definition lower_char :: "char \<Rightarrow> char" where
  "lower_char c =
     (case map_of (zip ''ABCDEFGHIJKLMNOPQRSTUVWXYZ'' ''abcdefghijklmnopqrstuvwxyz'') c of
        Some l \<Rightarrow> l
      | None \<Rightarrow> c)"

definition lower :: "string \<Rightarrow> string" where
  "lower s = map lower_char s"

text \<open>A dict with str keys: \<^verbatim>\<open>d.get(k)\<close> and \<^verbatim>\<open>d.get(k, default)\<close>.\<close>

type_synonym pydict = "string \<rightharpoonup> pyval"

definition dict_get :: "pydict \<Rightarrow> string \<Rightarrow> pyval" where
  "dict_get d k = (case d k of None \<Rightarrow> PNone | Some v \<Rightarrow> v)"

definition dict_get_default :: "pydict \<Rightarrow> string \<Rightarrow> pyval \<Rightarrow> pyval" where
  "dict_get_default d k dflt = (case d k of None \<Rightarrow> dflt | Some v \<Rightarrow> v)"


section \<open>The store\<close>

text \<open>
  The functions of \<^verbatim>\<open>api.py\<close> run against the host framework's store.  A \<open>site\<close> holds
  the tables they read and write, the session user, and \<open>db_log\<close>, the calls made to the
  store in order.  The framework assigns a document's name on insert (\<open>autoname\<close>);
  \<^verbatim>\<open>insert\<close> and \<^verbatim>\<open>submit\<close> are the framework's and are taken here as writes it
  accepts: what the framework itself validates in a document is not part of \<^verbatim>\<open>api.py\<close>.
\<close>

record customer =
  c_name :: string
  customer_name :: string
  customer_group :: string
  territory :: string
  country :: "string option"
  default_currency :: "string option"
  email_id :: "string option"
  mobile_no :: "string option"
  accounts :: "(string \<times> string) list"

record sheet_item =
  item_code :: string
  qty :: pyfloat
  rate :: pyfloat

record service_sheet =
  erp_customer :: "string option"
  custom_agent :: "string option"
  price :: pyfloat
  item :: "sheet_item list"

record invoice_item =
  ii_item_code :: string
  ii_qty :: pyfloat
  ii_rate :: pyfloat

record sales_invoice =
  si_name :: string
  si_company :: string
  si_customer :: "string option"
  si_posting_date :: string
  set_posting_time :: int
  si_custom_agent :: "string option"
  write_off_amount :: pyfloat
  base_write_off_amount :: pyfloat
  items :: "invoice_item list"
  apply_discount_on :: "string option"
  discount_amount :: "pyfloat option"
  additional_discount_percentage :: "int option"
  si_docstatus :: nat

record je_line =
  account :: pyval
  debit_in_account_currency :: pyfloat
  credit_in_account_currency :: pyfloat
  party_type :: "string option"
  party :: pyval
  cost_center :: "string option"
  reference_type :: "string option"
  reference_name :: pyval

record journal_entry =
  je_name :: string
  voucher_type :: string
  je_posting_date :: pyval
  reference_no :: pyval
  reference_date :: pyval
  je_company :: "string option"
  je_accounts :: "je_line list"
  je_docstatus :: nat

record exchange_record =
  from_currency :: string
  to_currency :: string
  cx_date :: date
  exchange_rate :: pyfloat

record user =
  full_name :: string
  user_email :: string
  role_profile_name :: "string option"

datatype db_call =
    Get_doc string string
  | Get_all string string
  | Get_value string string
  | Get_default string
  | Insert_doc string string
  | Submit_doc string string
  | Set_value string string string

record site =
  customers :: "customer list"
  sheets :: "string \<rightharpoonup> service_sheet"
  sales_invoices :: "sales_invoice list"
  journal_entries :: "journal_entry list"
  currency_exchange :: "exchange_record list"
  users :: "string \<rightharpoonup> user"
  account_company :: "string \<rightharpoonup> string"
  company_receivable :: "string \<rightharpoonup> string"
  default_cost_center :: "string option"
  session_user :: string
  today :: string
  autoname :: "string \<Rightarrow> nat \<Rightarrow> string"
  store_fault :: "error option"
  db_log :: "db_call list"

definition log_call :: "db_call \<Rightarrow> site \<Rightarrow> site" where
  "log_call c s = s\<lparr>db_log := db_log s @ [c]\<rparr>"

text \<open>\<^verbatim>\<open>frappe.set_user(u)\<close>.\<close>

definition set_user :: "string \<Rightarrow> site \<Rightarrow> site" where
  "set_user u s = s\<lparr>session_user := u\<rparr>"

section \<open>Customers: \<^verbatim>\<open>search_customer\<close>, \<^verbatim>\<open>create_customer\<close>\<close>

text \<open>
  \<^verbatim>\<open>frappe.get_all("Customer", filters={field: value}, fields=["name"])\<close>: the customers
  whose field equals the value, in the order the store lists them.
\<close>

definition get_all_customers ::
  "string \<Rightarrow> (customer \<Rightarrow> string option) \<Rightarrow> string \<Rightarrow> site \<Rightarrow> customer list \<times> site" where
  "get_all_customers field sel v s =
     (filter (\<lambda>c. sel c = Some v) (customers s), log_call (Get_all ''Customer'' field) s)"

definition search_by_mobile :: "site \<Rightarrow> string option \<Rightarrow> string option \<times> site" where
  "search_by_mobile s mobile =
     (case mobile of
        None \<Rightarrow> (None, s)
      | Some m \<Rightarrow>
          if m = [] then (None, s)
          else (case get_all_customers ''mobile_no'' mobile_no m s of
                  ([], s') \<Rightarrow> (None, s')
                | (c # cs, s') \<Rightarrow> (Some (c_name c), s')))"

definition search_customer ::
  "site \<Rightarrow> string option \<Rightarrow> string option \<Rightarrow> string option \<times> site" where
  "search_customer s email mobile =
     (case email of
        None \<Rightarrow> search_by_mobile s mobile
      | Some e \<Rightarrow>
          if e = [] then search_by_mobile s mobile
          else (case get_all_customers ''email_id'' email_id e s of
                  ([], s') \<Rightarrow> search_by_mobile s' mobile
                | (c # cs, s') \<Rightarrow> (Some (c_name c), s')))"

definition insert_customer :: "customer \<Rightarrow> site \<Rightarrow> string \<times> site" where
  "insert_customer c s =
     (let n = autoname s ''Customer'' (length (customers s))
      in (n, log_call (Insert_doc ''Customer'' n) (s\<lparr>customers := customers s @ [c\<lparr>c_name := n\<rparr>]\<rparr>)))"

text \<open>
  \<^verbatim>\<open>create_customer\<close>.  In the Ghana branch the row appended for a default account is the
  dict \<^verbatim>\<open>{"account": default_account, "company": company}\<close>; \<^verbatim>\<open>company\<close> is bound nowhere
  in the function or the module, so building the dict raises NameError before anything
  is appended or inserted.
\<close>

definition create_customer ::
  "site \<Rightarrow> string \<Rightarrow> string option \<Rightarrow> string option \<Rightarrow> string option \<Rightarrow> string option
     \<Rightarrow> string option \<Rightarrow> (error + string) \<times> site" where
  "create_customer s cname ctry default_account billing_currency email mobile =
     (let cust = \<lparr>c_name = [], customer_name = cname, customer_group = ''Individual'',
                  territory = ''Nigeria'', country = ctry, default_currency = billing_currency,
                  email_id = email, mobile_no = mobile, accounts = []\<rparr>
      in if country cust = Some ''Ghana'' then
           (let cust' = cust\<lparr>territory := ''Ghana''\<rparr>
            in if truthy_str default_account then (Inl (NameError ''company''), s)
               else (case insert_customer cust' s of (n, s') \<Rightarrow> (Inr n, s')))
         else (case insert_customer cust s of (n, s') \<Rightarrow> (Inr n, s')))"

section \<open>Service sheet to sales invoice: \<^verbatim>\<open>create_sales_invoice\<close>\<close>

definition under_price_msg :: string where
  "under_price_msg =
     ''Order Price is not equal to the invoice price. '' @
     ''Please add comboex  on the first row if this is a combo.''"

definition over_price_msg :: string where
  "over_price_msg =
     ''Order Price is not equal to the invoice price, and the first row is not Comboex. '' @
     ''Please add a comboex  on the first row or fix your items.''"

definition no_customer_msg :: string where
  "no_customer_msg = ''No linked Customer found in erp_customer field''"

text \<open>The loop \<^verbatim>\<open>sum_of_item_lines += row.qty * row.rate\<close>, from \<open>0.0\<close>.\<close>

definition sum_of_item_lines :: "sheet_item list \<Rightarrow> pyfloat" where
  "sum_of_item_lines rows = foldl (\<lambda>acc row. fadd acc (fmul (qty row) (rate row))) pzero rows"

definition first_item_code :: "sheet_item list \<Rightarrow> string" where
  "first_item_code rows = (case rows of [] \<Rightarrow> [] | row # rest \<Rightarrow> lower (item_code row))"

text \<open>Scenario A, scenario B, or no mismatch: the error thrown, if any.\<close>

definition price_check :: "pyfloat \<Rightarrow> string \<Rightarrow> error option" where
  "price_check difference first_code =
     (if fneg0 difference then
        (if first_code \<noteq> ''comboex'' then Some (ValidationError under_price_msg) else None)
      else if fpos0 difference then
        (if first_code \<noteq> ''comboex'' then Some (ValidationError over_price_msg) else None)
      else None)"

definition invoice_of_sheet :: "site \<Rightarrow> service_sheet \<Rightarrow> sales_invoice" where
  "invoice_of_sheet s doc =
     \<lparr>si_name = [], si_company = ''Timmie Kettle'', si_customer = erp_customer doc,
      si_posting_date = today s, set_posting_time = 1, si_custom_agent = custom_agent doc,
      write_off_amount = pzero, base_write_off_amount = pzero,
      items = map (\<lambda>row. \<lparr>ii_item_code = item_code row, ii_qty = qty row, ii_rate = rate row\<rparr>)
                (item doc),
      apply_discount_on = None, discount_amount = None,
      additional_discount_percentage = None, si_docstatus = 0\<rparr>"

definition apply_discount :: "pyfloat \<Rightarrow> string \<Rightarrow> sales_invoice \<Rightarrow> sales_invoice" where
  "apply_discount difference first_code si =
     (if fpos0 difference \<and> first_code = ''comboex''
      then si\<lparr>apply_discount_on := Some ''Grand Total'', discount_amount := Some difference,
              additional_discount_percentage := Some 0\<rparr>
      else si)"

definition insert_sales_invoice :: "sales_invoice \<Rightarrow> site \<Rightarrow> string \<times> site" where
  "insert_sales_invoice si s =
     (let n = autoname s ''Sales Invoice'' (length (sales_invoices s))
      in (n, log_call (Insert_doc ''Sales Invoice'' n)
               (s\<lparr>sales_invoices := sales_invoices s @ [si\<lparr>si_name := n, si_docstatus := 0\<rparr>]\<rparr>)))"

definition submit_sales_invoice :: "string \<Rightarrow> site \<Rightarrow> site" where
  "submit_sales_invoice n s =
     log_call (Submit_doc ''Sales Invoice'' n)
       (s\<lparr>sales_invoices :=
            map (\<lambda>d. if si_name d = n then d\<lparr>si_docstatus := 1\<rparr> else d) (sales_invoices s)\<rparr>)"

definition create_sales_invoice :: "site \<Rightarrow> string \<Rightarrow> (error + string) \<times> site" where
  "create_sales_invoice s0 customer_service_sheet =
     (let s = log_call (Get_doc ''Customer Service Sheet'' customer_service_sheet) s0
      in case sheets s customer_service_sheet of
           None \<Rightarrow>
             (Inl (DoesNotExistError ''Customer Service Sheet'' customer_service_sheet), s)
         | Some doc \<Rightarrow>
             if \<not> truthy_str (erp_customer doc) then (Inl (ValidationError no_customer_msg), s)
             else
               (let child_items = item doc;
                    difference = fsub (sum_of_item_lines child_items) (price doc);
                    first_code = first_item_code child_items
                in case price_check difference first_code of
                     Some err \<Rightarrow> (Inl err, s)
                   | None \<Rightarrow>
                       (case insert_sales_invoice
                               (apply_discount difference first_code (invoice_of_sheet s doc)) s of
                          (n, s') \<Rightarrow> (Inr n, submit_sales_invoice n s'))))"


section \<open>Role administration: \<^verbatim>\<open>update_user_role\<close>\<close>

text \<open>
  \<^verbatim>\<open>frappe.db.set_value("User", user, "role_profile_name", value)\<close> updates the row of that
  name, if there is one.  The store may raise instead (\<open>store_fault\<close>); then nothing is
  written.
\<close>

definition db_set_role_profile :: "string \<Rightarrow> string \<Rightarrow> site \<Rightarrow> error + site" where
  "db_set_role_profile usr new_role s =
     (case store_fault s of
        Some err \<Rightarrow> Inl err
      | None \<Rightarrow>
          Inr (log_call (Set_value ''User'' usr ''role_profile_name'')
                 (case users s usr of
                    None \<Rightarrow> s
                  | Some u \<Rightarrow> s\<lparr>users := (users s)(usr \<mapsto> u\<lparr>role_profile_name := Some new_role\<rparr>)\<rparr>)))"

definition new_role_of :: "pyval \<Rightarrow> string" where
  "new_role_of active =
     (if py_in active [PBool True, PStr ''1'', PInt 1] then ''Customer Service'' else ''Test'')"

text \<open>The \<^verbatim>\<open>finally\<close> block runs on both exits; an exception of the write is raised after it.\<close>

definition update_user_role :: "site \<Rightarrow> string \<Rightarrow> pyval \<Rightarrow> (error + bool) \<times> site" where
  "update_user_role s usr active =
     (let new_role = new_role_of active;
          current_user = session_user s;
          s1 = set_user ''Administrator'' s
      in case db_set_role_profile usr new_role s1 of
           Inl err \<Rightarrow> (Inl err, set_user current_user s1)
         | Inr s2 \<Rightarrow> (Inr True, set_user current_user s2))"

section \<open>Exchange rates: \<^verbatim>\<open>get_exchange_rate\<close>\<close>

text \<open>
  \<^verbatim>\<open>order_by="date desc"\<close> and the first row: a record of the latest date (the first such
  in the store's order).
\<close>

fun latest :: "exchange_record list \<Rightarrow> exchange_record option" where
  "latest [] = None"
| "latest (r # rs) =
     (case latest rs of
        None \<Rightarrow> Some r
      | Some r' \<Rightarrow> if cx_date r < cx_date r' then Some r' else Some r)"

definition rate_filter :: "string \<Rightarrow> date \<Rightarrow> exchange_record \<Rightarrow> bool" where
  "rate_filter currency d r =
     (from_currency r = currency \<and> to_currency r = ''NGN'' \<and> cx_date r \<le> d)"

text \<open>\<^verbatim>\<open>frappe.db.get_value("Currency Exchange", filters, "exchange_rate", order_by)\<close>.\<close>

definition db_get_rate :: "string \<Rightarrow> date \<Rightarrow> site \<Rightarrow> pyfloat option \<times> site" where
  "db_get_rate currency d s =
     (map_option exchange_rate (latest (filter (rate_filter currency d) (currency_exchange s))),
      log_call (Get_value ''Currency Exchange'' ''exchange_rate'') s)"

definition get_exchange_rate :: "site \<Rightarrow> string \<Rightarrow> date \<Rightarrow> (error + pyfloat) \<times> site" where
  "get_exchange_rate s currency d =
     (if currency = ''NGN'' then (Inr fone, s)
      else (case db_get_rate currency d s of
              (None, s') \<Rightarrow> (Inl (RateNotFound currency d), s')
            | (Some r, s') \<Rightarrow>
                if \<not> ftruthy r then (Inl (RateNotFound currency d), s') else (Inr r, s')))"

section \<open>Agent payments: \<^verbatim>\<open>create_journal_entry2\<close>\<close>

text \<open>
  The arguments are the parsed JSON values: \<open>agent_payment\<close> a dict, \<open>selected_invoices\<close> a
  list of dicts.  \<^verbatim>\<open>[float(inv.get("outstanding_amount", 0)) for inv in selected_invoices]\<close>
  stops at the first value that \<^verbatim>\<open>float\<close> refuses.
\<close>

fun outstanding_amounts ::
  "(string \<Rightarrow> pyfloat option) \<Rightarrow> pydict list \<Rightarrow> error + pyfloat list" where
  "outstanding_amounts parse [] = Inr []"
| "outstanding_amounts parse (invc # invs) =
     (case py_float parse (dict_get_default invc ''outstanding_amount'' (PInt 0)) of
        Inl err \<Rightarrow> Inl err
      | Inr amt \<Rightarrow>
          (case outstanding_amounts parse invs of
             Inl err \<Rightarrow> Inl err
           | Inr amts \<Rightarrow> Inr (amt # amts)))"

fun pyval_of_opt :: "string option \<Rightarrow> pyval" where
  "pyval_of_opt None = PNone"
| "pyval_of_opt (Some x) = PStr x"

definition bank_line :: "pydict \<Rightarrow> pyfloat \<Rightarrow> string option \<Rightarrow> je_line" where
  "bank_line agent_payment computed_total cc =
     \<lparr>account = dict_get agent_payment ''bank'', debit_in_account_currency = computed_total,
      credit_in_account_currency = pzero, party_type = Some [], party = PStr [],
      cost_center = cc, reference_type = None, reference_name = PNone\<rparr>"

definition credit_line :: "string option \<Rightarrow> string option \<Rightarrow> pydict \<Rightarrow> pyfloat \<Rightarrow> je_line" where
  "credit_line default_ar cc invc amt =
     \<lparr>account = pyval_of_opt default_ar, debit_in_account_currency = pzero,
      credit_in_account_currency = amt, party_type = Some ''Customer'',
      party = dict_get invc ''customer'', cost_center = cc,
      reference_type = Some ''Sales Invoice'', reference_name = dict_get invc ''name''\<rparr>"

text \<open>The second loop over \<open>selected_invoices\<close>, which converts each amount again.\<close>

fun credit_lines ::
  "(string \<Rightarrow> pyfloat option) \<Rightarrow> string option \<Rightarrow> string option \<Rightarrow> pydict list
     \<Rightarrow> error + je_line list" where
  "credit_lines parse default_ar cc [] = Inr []"
| "credit_lines parse default_ar cc (invc # invs) =
     (case py_float parse (dict_get_default invc ''outstanding_amount'' (PInt 0)) of
        Inl err \<Rightarrow> Inl err
      | Inr amt \<Rightarrow>
          (case credit_lines parse default_ar cc invs of
             Inl err \<Rightarrow> Inl err
           | Inr ls \<Rightarrow> Inr (credit_line default_ar cc invc amt # ls)))"

definition deduction_line :: "string \<Rightarrow> pyfloat \<Rightarrow> string option \<Rightarrow> je_line" where
  "deduction_line acc amount cc =
     \<lparr>account = PStr acc, debit_in_account_currency = amount,
      credit_in_account_currency = pzero, party_type = None, party = PNone,
      cost_center = cc, reference_type = None, reference_name = PNone\<rparr>"

definition insert_journal_entry :: "journal_entry \<Rightarrow> site \<Rightarrow> string \<times> site" where
  "insert_journal_entry je s =
     (let n = autoname s ''Journal Entry'' (length (journal_entries s))
      in (n, log_call (Insert_doc ''Journal Entry'' n)
               (s\<lparr>journal_entries := journal_entries s @ [je\<lparr>je_name := n, je_docstatus := 0\<rparr>]\<rparr>)))"

definition submit_journal_entry :: "string \<Rightarrow> site \<Rightarrow> site" where
  "submit_journal_entry n s =
     log_call (Submit_doc ''Journal Entry'' n)
       (s\<lparr>journal_entries :=
            map (\<lambda>d. if je_name d = n then d\<lparr>je_docstatus := 1\<rparr> else d) (journal_entries s)\<rparr>)"

text \<open>
  \<^verbatim>\<open>frappe.db.get_value("Account", bank, "company")\<close>, \<^verbatim>\<open>frappe.db.get_default("cost_center")\<close>
  and \<^verbatim>\<open>frappe.get_cached_value("Company", company, "default_receivable_account")\<close>: each
  gives \<^verbatim>\<open>None\<close> where the store has no value.
\<close>

definition bank_company :: "site \<Rightarrow> pyval \<Rightarrow> string option" where
  "bank_company s bank = (case bank of PStr b \<Rightarrow> account_company s b | _ \<Rightarrow> None)"

definition receivable_of :: "site \<Rightarrow> string option \<Rightarrow> string option" where
  "receivable_of s cmpny = (case cmpny of None \<Rightarrow> None | Some c \<Rightarrow> company_receivable s c)"

definition journal_lines ::
  "pydict \<Rightarrow> pyfloat \<Rightarrow> je_line list \<Rightarrow> pyfloat \<Rightarrow> pyfloat \<Rightarrow> string option \<Rightarrow> je_line list" where
  "journal_lines agent_payment computed_total credits commission charges cc =
     [bank_line agent_payment computed_total cc] @ credits @
     (if ftruthy commission then [deduction_line ''Commission on Sales - TK'' commission cc] else []) @
     (if ftruthy charges then [deduction_line ''Delivery Charges - TK'' charges cc] else [])"

definition create_journal_entry2 ::
  "(string \<Rightarrow> pyfloat option) \<Rightarrow> site \<Rightarrow> pydict \<Rightarrow> pydict list \<Rightarrow> (error + string) \<times> site" where
  "create_journal_entry2 parse s agent_payment selected_invoices =
     (case outstanding_amounts parse selected_invoices of
        Inl err \<Rightarrow> (Inl err, s)
      | Inr amts \<Rightarrow>
     (case py_float parse (py_or (dict_get agent_payment ''commissions_deducted'') (PInt 0)) of
        Inl err \<Rightarrow> (Inl err, s)
      | Inr commission \<Rightarrow>
     (case py_float parse (py_or (dict_get agent_payment ''charges_deducted'') (PInt 0)) of
        Inl err \<Rightarrow> (Inl err, s)
      | Inr charges \<Rightarrow>
     (case py_float parse (py_or (dict_get agent_payment ''selected_total'') (PInt 0)) of
        Inl err \<Rightarrow> (Inl err, s)
      | Inr selected_total_field \<Rightarrow>
     (let invoice_total = py_sum amts;
          computed_total = fsub (fsub invoice_total commission) charges
      in if fne computed_total selected_total_field
         then (Inl (NetMismatch computed_total selected_total_field), s)
         else
           (let posting = py_or (dict_get agent_payment ''date'') (PStr (today s));
                s1 = log_call (Get_value ''Account'' ''company'') s;
                cmpny = bank_company s1 (dict_get agent_payment ''bank'');
                s2 = log_call (Get_default ''cost_center'') s1;
                cc = default_cost_center s2;
                s3 = log_call (Get_value ''Company'' ''default_receivable_account'') s2;
                default_ar = receivable_of s3 cmpny
            in case credit_lines parse default_ar cc selected_invoices of
                 Inl err \<Rightarrow> (Inl err, s3)
               | Inr credits \<Rightarrow>
                   (case insert_journal_entry
                           \<lparr>je_name = [], voucher_type = ''Journal Entry'',
                            je_posting_date = posting,
                            reference_no = dict_get agent_payment ''name'',
                            reference_date = posting, je_company = cmpny,
                            je_accounts =
                              journal_lines agent_payment computed_total credits
                                commission charges cc,
                            je_docstatus = 0\<rparr> s3 of
                      (n, s') \<Rightarrow> (Inr n, submit_journal_entry n s'))))))))"

text \<open>The totals of an entry: the debit and the credit amounts over all its lines.\<close>

definition total_debit :: "journal_entry \<Rightarrow> pyfloat" where
  "total_debit je = py_sum (map debit_in_account_currency (je_accounts je))"

definition total_credit :: "journal_entry \<Rightarrow> pyfloat" where
  "total_credit je = py_sum (map credit_in_account_currency (je_accounts je))"

section \<open>What the properties speak of\<close>

text \<open>
  The customers a lookup of \<^verbatim>\<open>search_customer\<close> would match (none where the argument is
  absent or empty, so that no lookup is made), and the store calls made since a site \<open>s\<close>.
\<close>

definition email_matches :: "site \<Rightarrow> string option \<Rightarrow> customer list" where
  "email_matches s email =
     (if truthy_str email then filter (\<lambda>c. email_id c = email) (customers s) else [])"

definition mobile_matches :: "site \<Rightarrow> string option \<Rightarrow> customer list" where
  "mobile_matches s mobile =
     (if truthy_str mobile then filter (\<lambda>c. mobile_no c = mobile) (customers s) else [])"

definition new_calls :: "site \<Rightarrow> site \<Rightarrow> db_call list" where
  "new_calls s s' = drop (length (db_log s)) (db_log s')"

text \<open>The record whose rate \<^verbatim>\<open>get_exchange_rate\<close> reads from the store, if any.\<close>

definition picked :: "site \<Rightarrow> string \<Rightarrow> date \<Rightarrow> exchange_record option" where
  "picked s currency d = latest (filter (rate_filter currency d) (currency_exchange s))"

section \<open>Example sites\<close>

text \<open>An empty site, and sites with a few documents, on which the properties are run.\<close>

definition autoname0 :: "string \<Rightarrow> nat \<Rightarrow> string" where
  "autoname0 doctype n = doctype @ ''-'' @ replicate n (CHR ''I'')"

definition site0 :: site where
  "site0 =
     \<lparr>customers = [], sheets = Map.empty, sales_invoices = [], journal_entries = [],
      currency_exchange = [], users = Map.empty, account_company = Map.empty,
      company_receivable = Map.empty, default_cost_center = None,
      session_user = ''agent@example.com'', today = ''2025-01-01'', autoname = autoname0,
      store_fault = None, db_log = []\<rparr>"

definition cust_a :: customer where
  "cust_a = \<lparr>c_name = ''CUST-A'', customer_name = ''Ada'', customer_group = ''Individual'',
             territory = ''Nigeria'', country = None, default_currency = None,
             email_id = Some ''ada@example.com'', mobile_no = Some ''0801'', accounts = []\<rparr>"

definition cust_b :: customer where
  "cust_b = \<lparr>c_name = ''CUST-B'', customer_name = ''Bayo'', customer_group = ''Individual'',
             territory = ''Nigeria'', country = None, default_currency = None,
             email_id = Some ''bayo@example.com'', mobile_no = Some ''0802'', accounts = []\<rparr>"

definition site_customers :: site where
  "site_customers = site0\<lparr>customers := [cust_b, cust_a]\<rparr>"

definition user_ada :: user where
  "user_ada = \<lparr>full_name = ''Ada Obi'', user_email = ''ada@example.com'', role_profile_name = None\<rparr>"

definition site_users :: site where
  "site_users = site0\<lparr>users := [''ada@example.com'' \<mapsto> user_ada]\<rparr>"

definition site_users_fault :: site where
  "site_users_fault = site_users\<lparr>store_fault := Some (StoreError ''connection lost'')\<rparr>"

definition site_zero_rate :: site where
  "site_zero_rate =
     site0\<lparr>currency_exchange :=
             [\<lparr>from_currency = ''USD'', to_currency = ''NGN'', cx_date = 5, exchange_rate = pzero\<rparr>]\<rparr>"

definition site_rates :: site where
  "site_rates =
     site0\<lparr>currency_exchange :=
             [\<lparr>from_currency = ''USD'', to_currency = ''NGN'', cx_date = 3, exchange_rate = Fin False 375 1076\<rparr>,
              \<lparr>from_currency = ''USD'', to_currency = ''NGN'', cx_date = 7, exchange_rate = Fin False 25 1080\<rparr>,
              \<lparr>from_currency = ''USD'', to_currency = ''NGN'', cx_date = 12, exchange_rate = Fin False 425 1076\<rparr>,
              \<lparr>from_currency = ''GHS'', to_currency = ''NGN'', cx_date = 9, exchange_rate = Fin False 25 1076\<rparr>]\<rparr>"

definition sheet_over :: service_sheet where
  "sheet_over =
     \<lparr>erp_customer = Some ''CUST-A'', custom_agent = Some ''Agent 7'', price = Fin False 75 1075,
      item = [\<lparr>item_code = ''ComboEx'', qty = Fin False 1 1074, rate = Fin False 25 1077\<rparr>]\<rparr>"

definition sheet_equal :: service_sheet where
  "sheet_equal =
     \<lparr>erp_customer = Some ''CUST-A'', custom_agent = None, price = Fin False 75 1075,
      item = [\<lparr>item_code = ''Kettle'', qty = Fin False 1 1075, rate = Fin False 75 1074\<rparr>]\<rparr>"

definition sheet_under :: service_sheet where
  "sheet_under =
     \<lparr>erp_customer = Some ''CUST-A'', custom_agent = None, price = Fin False 75 1075,
      item = [\<lparr>item_code = ''Kettle'', qty = Fin False 1 1074, rate = Fin False 25 1076\<rparr>]\<rparr>"

definition sheet_no_customer :: service_sheet where
  "sheet_no_customer = sheet_under\<lparr>erp_customer := None\<rparr>"

definition site_sheets :: site where
  "site_sheets =
     site0\<lparr>sheets := [''CSS-OVER'' \<mapsto> sheet_over, ''CSS-EQ'' \<mapsto> sheet_equal,
                        ''CSS-UNDER'' \<mapsto> sheet_under, ''CSS-NC'' \<mapsto> sheet_no_customer]\<rparr>"

definition no_parse :: "string \<Rightarrow> pyfloat option" where
  "no_parse str = None"

definition payment_near :: pydict where
  "payment_near =
     [''name'' \<mapsto> PStr ''AP-0001'', ''bank'' \<mapsto> PStr ''GTB - TK'',
      ''commissions_deducted'' \<mapsto> PFloat (Fin False 7205759403792794 1018),
      ''selected_total'' \<mapsto> PFloat (Fin False 7205759403792794 1019)]"

definition invoices_near :: "pydict list" where
  "invoices_near =
     [[''name'' \<mapsto> PStr ''SINV-0001'', ''customer'' \<mapsto> PStr ''CUST-A'',
       ''outstanding_amount'' \<mapsto> PFloat (Fin False 5404319552844595 1020)]]"

section \<open>Properties of the float operations\<close>

lemma bitlen_pos_ge: "M \<noteq> 0 \<Longrightarrow> 2 ^ (bitlen M - 1) \<le> M"
  using floorlog_bounds[of M 2] by (simp add: bitlen_def)

lemma bitlen_lt: "M < 2 ^ bitlen M"
  using floorlog_bounds[of M 2] by (cases "M = 0") (simp_all add: bitlen_def)

lemma bitlen_le_53: "d < 2 ^ 53 \<Longrightarrow> bitlen d \<le> 53"
  unfolding bitlen_def by (rule floorlog_leI) simp_all

lemma rne_ge_div: "n div 2 ^ q \<le> rne n q"
  by (simp add: rne_def Let_def)

lemma rne_pos:
  assumes "M \<noteq> 0" "q < bitlen M"
  shows "rne M q \<noteq> 0"
proof -
  have "2 ^ q \<le> (2::nat) ^ (bitlen M - 1)" using assms(2) by (intro power_increasing) auto
  also have "\<dots> \<le> M" using bitlen_pos_ge[OF assms(1)] .
  finally have "1 \<le> M div 2 ^ q" by (simp add: Suc_le_eq div_greater_zero_iff)
  with rne_ge_div[of M q] show ?thesis by linarith
qed

lemma finite_or_inf_sign:
  "m \<noteq> 0 \<Longrightarrow> fneg0 (finite_or_inf s m e) = s \<and> fpos0 (finite_or_inf s m e) = (\<not> s)"
  by (simp add: finite_or_inf_def)

lemma round_fin_sign:
  assumes "M \<noteq> 0"
  shows "fneg0 (round_fin s M (int k)) = s \<and> fpos0 (round_fin s M (int k)) = (\<not> s)"
proof (cases "bitlen M \<le> 53")
  case True
  then have "max (int (bitlen M) - 53) (- int k) \<le> 0" by simp
  then show ?thesis using assms by (simp add: round_fin_def Let_def finite_or_inf_sign)
next
  case False
  define q where "q = bitlen M - 53"
  have q: "max (int (bitlen M) - 53) (- int k) = int q" "q \<noteq> 0" "q < bitlen M"
    using False by (auto simp: q_def)
  have d: "rne M q \<noteq> 0" using rne_pos[OF assms q(3)] .
  have d2: "\<not> bitlen (rne M q) \<le> 53 \<Longrightarrow> rne M q div 2 \<noteq> 0"
  proof -
    assume "\<not> bitlen (rne M q) \<le> 53"
    then have "\<not> rne M q < 2 ^ 53" using bitlen_le_53 by blast
    then show ?thesis by (simp add: div_greater_zero_iff)
  qed
  show ?thesis
    unfolding round_fin_def q Let_def using q(2) d d2
    by (simp add: finite_or_inf_sign)
qed

lemma sgn_int_not: "sgn_int (\<not> t) x = - sgn_int t x"
  by (simp add: sgn_int_def)

lemma sgn_int_0 [simp]: "sgn_int s 0 = 0"
  by (simp add: sgn_int_def)

lemma sgn_int_neg_iff: "sgn_int s x < 0 \<longleftrightarrow> s \<and> x \<noteq> 0"
  by (simp add: sgn_int_def)

lemma sgn_int_pos_iff: "0 < sgn_int s x \<longleftrightarrow> \<not> s \<and> x \<noteq> 0"
  by (simp add: sgn_int_def)

lemma sgn_int_zero_iff: "sgn_int s x = 0 \<longleftrightarrow> x = 0"
  by (simp add: sgn_int_def)

lemma fadd_Fin_sign:
  fixes s t :: bool and m e n f :: nat
  defines "a \<equiv> sgn_int s (m * 2 ^ (e - min e f))"
  defines "b \<equiv> sgn_int t (n * 2 ^ (f - min e f))"
  shows "fneg0 (fadd (Fin s m e) (Fin t n f)) = (a + b < 0)"
    and "fpos0 (fadd (Fin s m e) (Fin t n f)) = (0 < a + b)"
proof -
  have both: "fneg0 (fadd (Fin s m e) (Fin t n f)) = (a + b < 0) \<and>
              fpos0 (fadd (Fin s m e) (Fin t n f)) = (0 < a + b)"
  proof (cases "m = 0")
    case m0: True
    show ?thesis
    proof (cases "n = 0")
      case True
      with m0 show ?thesis by (simp add: a_def b_def)
    next
      case False
      with m0 show ?thesis
        using round_fin_sign[of n t f]
        by (auto simp: a_def b_def sgn_int_neg_iff sgn_int_pos_iff)
    qed
  next
    case m1: False
    show ?thesis
    proof (cases "n = 0")
      case True
      with m1 show ?thesis
        using round_fin_sign[of m s e]
        by (auto simp: a_def b_def sgn_int_neg_iff sgn_int_pos_iff)
    next
      case False
      show ?thesis
      proof (cases "a + b = 0")
        case True
        with m1 False show ?thesis by (simp add: a_def b_def Let_def)
      next
        case nz: False
        then have "nat \<bar>a + b\<bar> \<noteq> 0" by simp
        from round_fin_sign[OF this, of "a + b < 0" "min e f"] nz m1 False
        show ?thesis by (auto simp: a_def b_def Let_def)
      qed
    qed
  qed
  from both show "fneg0 (fadd (Fin s m e) (Fin t n f)) = (a + b < 0)" by simp
  from both show "fpos0 (fadd (Fin s m e) (Fin t n f)) = (0 < a + b)" by simp
qed

lemma flt_fsub_neg: "flt x y \<Longrightarrow> fneg0 (fsub x y)"
  by (cases x; cases y)
    (auto simp add: fsub_def fadd_Fin_sign sgn_int_not Let_def simp del: fadd.simps(7))

lemma fgt_fsub_pos: "fgt x y \<Longrightarrow> fpos0 (fsub x y)"
  by (cases x; cases y)
    (auto simp add: fgt_def fsub_def fadd_Fin_sign sgn_int_not Let_def min.commute
       simp del: fadd.simps(7))

lemma feq_fsub_zero: "feq x y \<Longrightarrow> \<not> fneg0 (fsub x y) \<and> \<not> fpos0 (fsub x y)"
  by (cases x; cases y)
    (auto simp add: fsub_def fadd_Fin_sign sgn_int_not Let_def simp del: fadd.simps(7))

lemma fneg0_not_fpos0: "fneg0 x \<Longrightarrow> \<not> fpos0 x"
  by (cases x) auto

section \<open>Properties of the endpoints\<close>

lemma feq_int_fone: "feq_int fone 1"
  by (simp add: fone_def sgn_int_def)

text \<open>
  C8.  \<^verbatim>\<open>get_exchange_rate("NGN", date)\<close> returns the float \<open>1.0\<close> for every date and every
  site, and the site comes back as it was: no call to the store is logged.
\<close>

theorem get_exchange_rate_NGN:
  "get_exchange_rate s ''NGN'' d = (Inr fone, s) \<and> feq_int fone 1"
  by (simp add: get_exchange_rate_def feq_int_fone)

text \<open>
  C6.  With country "Ghana" and a default account supplied, \<^verbatim>\<open>create_customer\<close> raises
  NameError (\<^verbatim>\<open>company\<close> is unbound): no row is appended, no customer is inserted and no
  identifier is returned.
\<close>

theorem create_customer_ghana_account_NameError:
  "create_customer s cname (Some ''Ghana'') (Some ''Debtors - TK'') cur email mobile
     = (Inl (NameError ''company''), s)"
  by (simp add: create_customer_def)

lemma search_by_mobile_fst:
  "fst (search_by_mobile s mobile) =
     (case mobile_matches s mobile of [] \<Rightarrow> None | c # cs \<Rightarrow> Some (c_name c))"
  by (cases mobile)
     (auto simp: search_by_mobile_def mobile_matches_def get_all_customers_def split: list.splits)

lemma search_customer_email_hit:
  assumes "email_matches s email = c # cs"
  shows "search_customer s email mobile = (Some (c_name c), log_call (Get_all ''Customer'' ''email_id'') s)"
  using assms
  by (cases email)
     (auto simp: search_customer_def email_matches_def get_all_customers_def split: if_splits)

lemma search_customer_email_miss:
  assumes "email_matches s email = []"
  shows "fst (search_customer s email mobile) =
           (case mobile_matches s mobile of [] \<Rightarrow> None | c # cs \<Rightarrow> Some (c_name c))"
  using assms
  by (cases email)
     (auto simp: search_customer_def email_matches_def get_all_customers_def search_by_mobile_fst
                 mobile_matches_def log_call_def split: if_splits list.splits)

text \<open>
  C9.  Where the email lookup matches, \<^verbatim>\<open>search_customer\<close> returns the first email match
  whatever the mobile lookup would give, and makes no mobile lookup; a mobile lookup is
  made only where the email is absent or matches nobody; with no email match the first
  mobile match is returned, and \<^verbatim>\<open>None\<close> where neither matches.
\<close>

theorem search_customer_email_first:
  "(email_matches s email \<noteq> [] \<longrightarrow>
      search_customer s email mobile =
        (Some (c_name (hd (email_matches s email))), log_call (Get_all ''Customer'' ''email_id'') s)
      \<and> Get_all ''Customer'' ''mobile_no'' \<notin> set (new_calls s (snd (search_customer s email mobile))))
   \<and> (Get_all ''Customer'' ''mobile_no'' \<in> set (new_calls s (snd (search_customer s email mobile)))
        \<longrightarrow> email_matches s email = [])
   \<and> (email_matches s email = [] \<and> mobile_matches s mobile \<noteq> [] \<longrightarrow>
        fst (search_customer s email mobile) = Some (c_name (hd (mobile_matches s mobile))))
   \<and> (email_matches s email = [] \<and> mobile_matches s mobile = [] \<longrightarrow>
        fst (search_customer s email mobile) = None)"
proof -
  have hit: "email_matches s email \<noteq> [] \<Longrightarrow>
      search_customer s email mobile =
        (Some (c_name (hd (email_matches s email))), log_call (Get_all ''Customer'' ''email_id'') s)"
    using search_customer_email_hit[of s email] by (cases "email_matches s email") auto
  have nolog: "email_matches s email \<noteq> [] \<Longrightarrow>
      Get_all ''Customer'' ''mobile_no'' \<notin> set (new_calls s (snd (search_customer s email mobile)))"
    using hit by (simp add: new_calls_def log_call_def)
  show ?thesis
  proof (cases "email_matches s email = []")
    case True
    then show ?thesis
      using search_customer_email_miss[of s email mobile] by (auto split: list.splits)
  next
    case False
    then show ?thesis using hit nolog by simp
  qed
qed

theorem search_customer_email_first_witness:
  "email_matches site_customers (Some ''ada@example.com'') = [cust_a]
   \<and> mobile_matches site_customers (Some ''0802'') = [cust_b]
   \<and> c_name cust_a \<noteq> c_name cust_b
   \<and> search_customer site_customers (Some ''ada@example.com'') (Some ''0802'')
       = (Some ''CUST-A'', log_call (Get_all ''Customer'' ''email_id'') site_customers)
   \<and> fst (search_customer site_customers (Some ''nobody@example.com'') (Some ''0802''))
       = Some ''CUST-B''
   \<and> fst (search_customer site_customers (Some ''nobody@example.com'') None) = None"
proof -
  have e: "email_matches site_customers (Some ''ada@example.com'') = [cust_a]"
    by (simp add: email_matches_def site_customers_def site0_def cust_a_def cust_b_def)
  have m: "mobile_matches site_customers (Some ''0802'') = [cust_b]"
    by (simp add: mobile_matches_def site_customers_def site0_def cust_a_def cust_b_def)
  have e0: "email_matches site_customers (Some ''nobody@example.com'') = []"
    by (simp add: email_matches_def site_customers_def site0_def cust_a_def cust_b_def)
  have m0: "mobile_matches site_customers None = []"
    by (simp add: mobile_matches_def)
  have n: "c_name cust_a \<noteq> c_name cust_b" by (simp add: cust_a_def cust_b_def)
  have a: "c_name cust_a = ''CUST-A''" "c_name cust_b = ''CUST-B''"
    by (simp_all add: cust_a_def cust_b_def)
  show ?thesis
    using search_customer_email_first[of site_customers "Some ''ada@example.com''" "Some ''0802''"]
      search_customer_email_first[of site_customers "Some ''nobody@example.com''" "Some ''0802''"]
      search_customer_email_first[of site_customers "Some ''nobody@example.com''" None]
    by (simp add: e m e0 m0 n a)
qed

lemma py_in_active_iff:
  "py_in active [PBool True, PStr ''1'', PInt 1] \<longleftrightarrow>
     active = PBool True \<or> active = PStr ''1'' \<or> active = PInt 1 \<or>
     (\<exists>x. active = PFloat x \<and> feq_int x 1)"
  by (cases active) (auto simp: int_of_bool_def)

text \<open>
  C10.  \<^verbatim>\<open>update_user_role\<close> writes "Customer Service" to the user's role profile exactly
  when \<^verbatim>\<open>active in [True, "1", 1]\<close> (Python equality: \<^verbatim>\<open>True\<close>, \<^verbatim>\<open>"1"\<close>, \<^verbatim>\<open>1\<close>, and a float
  equal to 1) and "Test" otherwise, as for \<^verbatim>\<open>"0"\<close>, \<^verbatim>\<open>False\<close> and \<^verbatim>\<open>"true"\<close>; it returns
  \<^verbatim>\<open>True\<close>, and the session user is the caller's again after the call, also when the write
  raises.
\<close>

theorem update_user_role_sets_role:
  "(store_fault s = None \<longrightarrow>
      fst (update_user_role s usr active) = Inr True
      \<and> session_user (snd (update_user_role s usr active)) = session_user s
      \<and> (\<forall>u. users s usr = Some u \<longrightarrow>
            users (snd (update_user_role s usr active)) usr =
              Some (u\<lparr>role_profile_name :=
                       Some (if py_in active [PBool True, PStr ''1'', PInt 1]
                             then ''Customer Service'' else ''Test'')\<rparr>)))
   \<and> (\<forall>err. store_fault s = Some err \<longrightarrow>
        fst (update_user_role s usr active) = Inl err
        \<and> session_user (snd (update_user_role s usr active)) = session_user s
        \<and> users (snd (update_user_role s usr active)) = users s)
   \<and> (py_in active [PBool True, PStr ''1'', PInt 1] \<longleftrightarrow>
        active = PBool True \<or> active = PStr ''1'' \<or> active = PInt 1 \<or>
        (\<exists>x. active = PFloat x \<and> feq_int x 1))
   \<and> new_role_of (PStr ''0'') = ''Test'' \<and> new_role_of (PBool False) = ''Test''
   \<and> new_role_of (PStr ''true'') = ''Test''"
proof -
  have A: "store_fault s = None \<longrightarrow>
      fst (update_user_role s usr active) = Inr True
      \<and> session_user (snd (update_user_role s usr active)) = session_user s
      \<and> (\<forall>u. users s usr = Some u \<longrightarrow>
            users (snd (update_user_role s usr active)) usr =
              Some (u\<lparr>role_profile_name :=
                       Some (if py_in active [PBool True, PStr ''1'', PInt 1]
                             then ''Customer Service'' else ''Test'')\<rparr>))"
    by (auto simp: update_user_role_def db_set_role_profile_def set_user_def log_call_def
                   new_role_of_def Let_def split: option.splits)
  have B: "\<forall>err. store_fault s = Some err \<longrightarrow>
        fst (update_user_role s usr active) = Inl err
        \<and> session_user (snd (update_user_role s usr active)) = session_user s
        \<and> users (snd (update_user_role s usr active)) = users s"
    by (auto simp: update_user_role_def db_set_role_profile_def set_user_def Let_def)
  have C: "new_role_of (PStr ''0'') = ''Test'' \<and> new_role_of (PBool False) = ''Test''
           \<and> new_role_of (PStr ''true'') = ''Test''"
    by (simp add: new_role_of_def int_of_bool_def)
  from A B C py_in_active_iff[of active] show ?thesis by blast
qed

theorem update_user_role_sets_role_witness:
  "fst (update_user_role site_users ''ada@example.com'' (PStr ''1'')) = Inr True
   \<and> session_user (snd (update_user_role site_users ''ada@example.com'' (PStr ''1'')))
       = session_user site_users
   \<and> users (snd (update_user_role site_users ''ada@example.com'' (PStr ''1''))) ''ada@example.com''
       = Some (user_ada\<lparr>role_profile_name := Some ''Customer Service''\<rparr>)
   \<and> users (snd (update_user_role site_users ''ada@example.com'' (PInt 2))) ''ada@example.com''
       = Some (user_ada\<lparr>role_profile_name := Some ''Test''\<rparr>)
   \<and> fst (update_user_role site_users_fault ''ada@example.com'' (PStr ''1''))
       = Inl (StoreError ''connection lost'')
   \<and> session_user (snd (update_user_role site_users_fault ''ada@example.com'' (PStr ''1'')))
       = session_user site_users_fault"
proof -
  have f: "store_fault site_users = None"
    "store_fault site_users_fault = Some (StoreError ''connection lost'')"
    "users site_users ''ada@example.com'' = Some user_ada"
    by (simp_all add: site_users_fault_def site_users_def site0_def)
  show ?thesis
    using update_user_role_sets_role[of site_users "''ada@example.com''" "PStr ''1''"]
      update_user_role_sets_role[of site_users "''ada@example.com''" "PInt 2"]
      update_user_role_sets_role[of site_users_fault "''ada@example.com''" "PStr ''1''"]
    by (simp add: f)
qed

lemma latest_None_iff: "latest rs = None \<longleftrightarrow> rs = []"
  by (induction rs) (auto split: option.splits)

lemma latest_Some:
  "latest rs = Some r \<Longrightarrow> r \<in> set rs \<and> (\<forall>r' \<in> set rs. cx_date r' \<le> cx_date r)"
proof (induction rs arbitrary: r)
  case Nil
  then show ?case by simp
next
  case (Cons a rs)
  show ?case
  proof (cases "latest rs")
    case None
    then have "rs = []" by (simp add: latest_None_iff)
    with Cons.prems show ?thesis by simp
  next
    case (Some r')
    from Cons.IH[OF Some] have ih: "r' \<in> set rs" "\<forall>x \<in> set rs. cx_date x \<le> cx_date r'" by auto
    show ?thesis
    proof (cases "cx_date a < cx_date r'")
      case True
      with Some Cons.prems have "r = r'" by simp
      with ih True show ?thesis by auto
    next
      case False
      with Some Cons.prems have "r = a" by simp
      with ih False show ?thesis by fastforce
    qed
  qed
qed

lemma picked_None_iff:
  "picked s currency d = None \<longleftrightarrow> (\<forall>r \<in> set (currency_exchange s). \<not> rate_filter currency d r)"
  by (simp add: picked_def latest_None_iff filter_empty_conv)

lemma picked_Some:
  assumes "picked s currency d = Some r"
  shows "r \<in> set (currency_exchange s) \<and> rate_filter currency d r \<and>
         (\<forall>r' \<in> set (currency_exchange s). rate_filter currency d r' \<longrightarrow> cx_date r' \<le> cx_date r)"
  using latest_Some[OF assms[unfolded picked_def]] by auto

lemma get_exchange_rate_cases:
  assumes "currency \<noteq> ''NGN''"
  shows "fst (get_exchange_rate s currency d) =
           (case picked s currency d of
              None \<Rightarrow> Inl (RateNotFound currency d)
            | Some r \<Rightarrow> if ftruthy (exchange_rate r) then Inr (exchange_rate r)
                        else Inl (RateNotFound currency d))"
  using assms
  by (auto simp: get_exchange_rate_def db_get_rate_def picked_def split: option.splits)

text \<open>
  C7, as the code has it.  For a currency other than "NGN", \<^verbatim>\<open>get_exchange_rate\<close> returns
  only a non-zero rate of a record for (currency, NGN) dated on or before the date and no
  older than any other such record; it raises the not-found error exactly when there is no
  such record or the rate of the record read is zero (\<^verbatim>\<open>if not rate\<close>); it returns a float
  or raises, never \<^verbatim>\<open>None\<close>.
\<close>

theorem get_exchange_rate_latest_nonzero:
  assumes "currency \<noteq> ''NGN''"
  shows "(\<forall>x. fst (get_exchange_rate s currency d) = Inr x \<longrightarrow>
            ftruthy x \<and>
            (\<exists>r \<in> set (currency_exchange s).
               rate_filter currency d r \<and> exchange_rate r = x \<and>
               (\<forall>r' \<in> set (currency_exchange s).
                  rate_filter currency d r' \<longrightarrow> cx_date r' \<le> cx_date r)))
       \<and> (fst (get_exchange_rate s currency d) = Inl (RateNotFound currency d) \<longleftrightarrow>
            (\<forall>r \<in> set (currency_exchange s). \<not> rate_filter currency d r) \<or>
            (\<exists>r. picked s currency d = Some r \<and> \<not> ftruthy (exchange_rate r)))
       \<and> ((\<exists>x. fst (get_exchange_rate s currency d) = Inr x) \<or>
           fst (get_exchange_rate s currency d) = Inl (RateNotFound currency d))"
proof (cases "picked s currency d")
  case None
  then show ?thesis
    using picked_None_iff[of s currency d]
    by (simp add: get_exchange_rate_cases[OF assms])
next
  case (Some r)
  from picked_Some[OF Some] picked_None_iff[of s currency d] Some
  show ?thesis
    by (auto simp: get_exchange_rate_cases[OF assms])
qed

text \<open>
  C7 as stated fails: with a record for (USD, NGN) dated before the date whose rate is
  \<open>0.0\<close>, a record exists and the not-found error is raised all the same.
\<close>

theorem get_exchange_rate_zero_rate_raises:
  "(\<exists>r \<in> set (currency_exchange site_zero_rate). rate_filter ''USD'' 10 r)
   \<and> fst (get_exchange_rate site_zero_rate ''USD'' 10) = Inl (RateNotFound ''USD'' 10)"
  by (simp add: site_zero_rate_def site0_def rate_filter_def get_exchange_rate_def db_get_rate_def
        pzero_def)

lemmas fl_eval = bitlen_def compute_floorlog rne_def finite_or_inf_def round_fin_def sgn_int_def
  fsub_def fgt_def fne_def pzero_def fone_def

theorem get_exchange_rate_latest_nonzero_witness:
  "''USD'' \<noteq> ''NGN''
   \<and> fst (get_exchange_rate site_rates ''USD'' 10) = Inr (Fin False 25 1080)
   \<and> (\<exists>r \<in> set (currency_exchange site_rates).
         rate_filter ''USD'' 10 r \<and> exchange_rate r = Fin False 25 1080 \<and> cx_date r = 7)
   \<and> fst (get_exchange_rate site_rates ''EUR'' 10) = Inl (RateNotFound ''EUR'' 10)"
proof -
  have ev: "fst (get_exchange_rate site_rates ''USD'' 10) = Inr (Fin False 25 1080)"
    "fst (get_exchange_rate site_rates ''EUR'' 10) = Inl (RateNotFound ''EUR'' 10)"
    by (simp_all add: site_rates_def site0_def get_exchange_rate_def db_get_rate_def rate_filter_def)
  have ne: "''USD'' \<noteq> ''NGN''" by simp
  have ex: "\<exists>r \<in> set (currency_exchange site_rates).
         rate_filter ''USD'' 10 r \<and> exchange_rate r = Fin False 25 1080 \<and> cx_date r = 7"
    by (simp add: site_rates_def site0_def rate_filter_def)
  from get_exchange_rate_latest_nonzero[OF ne, of site_rates 10] ev ex ne show ?thesis by simp
qed

lemma log_call_fields [simp]:
  "customers (log_call c s) = customers s"
  "sheets (log_call c s) = sheets s"
  "sales_invoices (log_call c s) = sales_invoices s"
  "journal_entries (log_call c s) = journal_entries s"
  "currency_exchange (log_call c s) = currency_exchange s"
  "users (log_call c s) = users s"
  "account_company (log_call c s) = account_company s"
  "company_receivable (log_call c s) = company_receivable s"
  "default_cost_center (log_call c s) = default_cost_center s"
  "session_user (log_call c s) = session_user s"
  "today (log_call c s) = today s"
  "autoname (log_call c s) = autoname s"
  "store_fault (log_call c s) = store_fault s"
  "db_log (log_call c s) = db_log s @ [c]"
  by (simp_all add: log_call_def)

lemma new_calls_log [simp]: "new_calls s (log_call c s') = new_calls s s' @ [c]" if "length (db_log s) \<le> length (db_log s')"
  using that by (simp add: new_calls_def)

lemma new_calls_self [simp]: "new_calls s s = []"
  by (simp add: new_calls_def)

lemma invoice_of_sheet_log [simp]: "invoice_of_sheet (log_call c s) doc = invoice_of_sheet s doc"
  by (simp add: invoice_of_sheet_def)

lemma create_sales_invoice_checked:
  assumes "sheets s css = Some doc" "truthy_str (erp_customer doc)"
  shows "create_sales_invoice s css =
           (case price_check (fsub (sum_of_item_lines (item doc)) (price doc))
                   (first_item_code (item doc)) of
              Some err \<Rightarrow> (Inl err, log_call (Get_doc ''Customer Service Sheet'' css) s)
            | None \<Rightarrow>
                (case insert_sales_invoice
                        (apply_discount (fsub (sum_of_item_lines (item doc)) (price doc))
                           (first_item_code (item doc)) (invoice_of_sheet s doc))
                        (log_call (Get_doc ''Customer Service Sheet'' css) s) of
                   (n, s') \<Rightarrow> (Inr n, submit_sales_invoice n s')))"
  using assms by (simp add: create_sales_invoice_def Let_def split: option.splits)

lemma insert_submit_sales_invoice:
  assumes "insert_sales_invoice si s = (n, s')"
  shows "n = autoname s ''Sales Invoice'' (length (sales_invoices s))"
    and "length (sales_invoices (submit_sales_invoice n s')) = Suc (length (sales_invoices s))"
    and "last (sales_invoices (submit_sales_invoice n s')) = si\<lparr>si_name := n, si_docstatus := 1\<rparr>"
    and "butlast (map si_name (sales_invoices (submit_sales_invoice n s'))) = map si_name (sales_invoices s)"
    and "new_calls s (submit_sales_invoice n s') = [Insert_doc ''Sales Invoice'' n, Submit_doc ''Sales Invoice'' n]"
  using assms
  by (auto simp: insert_sales_invoice_def submit_sales_invoice_def log_call_def Let_def new_calls_def
        last_map map_butlast[symmetric] o_def)

lemma sum_sheet_over: "sum_of_item_lines (item sheet_over) = Fin False 25 1077"
  by (simp add: sheet_over_def sum_of_item_lines_def fl_eval)

lemma sum_sheet_equal: "sum_of_item_lines (item sheet_equal) = Fin False 75 1075"
  by (simp add: sheet_equal_def sum_of_item_lines_def fl_eval)

lemma sum_sheet_under: "sum_of_item_lines (item sheet_under) = Fin False 25 1076"
  by (simp add: sheet_under_def sum_of_item_lines_def fl_eval)

lemma lower_ComboEx: "lower ''ComboEx'' = ''comboex''"
  by (simp add: lower_def lower_char_def)

lemma lower_Kettle: "lower ''Kettle'' = ''kettle''"
  by (simp add: lower_def lower_char_def)

text \<open>
  C2, as the code has it.  For a sheet with a non-empty \<^verbatim>\<open>erp_customer\<close> whose line sum is
  below the price and whose first item code, lowercased, is not "comboex" (as with no
  lines, where it is the empty string), \<^verbatim>\<open>create_sales_invoice\<close> fails with the
  under-price message; the only store call is the read of the sheet, and no Sales Invoice
  is inserted or submitted.
\<close>

theorem create_sales_invoice_under_price:
  assumes "sheets s css = Some doc" and "truthy_str (erp_customer doc)"
    and "flt (sum_of_item_lines (item doc)) (price doc)"
    and "first_item_code (item doc) \<noteq> ''comboex''"
  shows "create_sales_invoice s css =
           (Inl (ValidationError under_price_msg),
            log_call (Get_doc ''Customer Service Sheet'' css) s)
         \<and> sales_invoices (snd (create_sales_invoice s css)) = sales_invoices s
         \<and> new_calls s (snd (create_sales_invoice s css)) = [Get_doc ''Customer Service Sheet'' css]
         \<and> first_item_code [] \<noteq> ''comboex''"
proof -
  have "fneg0 (fsub (sum_of_item_lines (item doc)) (price doc))"
    using assms(3) by (rule flt_fsub_neg)
  then have "price_check (fsub (sum_of_item_lines (item doc)) (price doc)) (first_item_code (item doc))
               = Some (ValidationError under_price_msg)"
    using assms(4) by (simp add: price_check_def)
  then show ?thesis
    by (simp add: create_sales_invoice_checked[OF assms(1,2)] first_item_code_def)
qed

theorem create_sales_invoice_under_price_witness:
  "flt (sum_of_item_lines (item sheet_under)) (price sheet_under)
   \<and> first_item_code (item sheet_under) = ''kettle''
   \<and> fst (create_sales_invoice site_sheets ''CSS-UNDER'') = Inl (ValidationError under_price_msg)
   \<and> sales_invoices (snd (create_sales_invoice site_sheets ''CSS-UNDER'')) = []"
proof -
  have h: "sheets site_sheets ''CSS-UNDER'' = Some sheet_under"
    "truthy_str (erp_customer sheet_under)"
    "first_item_code (item sheet_under) = ''kettle''"
    "sales_invoices site_sheets = []"
    by (simp_all add: site_sheets_def site0_def sheet_under_def first_item_code_def lower_Kettle)
  have lt: "flt (sum_of_item_lines (item sheet_under)) (price sheet_under)"
    unfolding sum_sheet_under by (simp add: sheet_under_def fl_eval)
  have ne: "first_item_code (item sheet_under) \<noteq> ''comboex''" by (simp add: h(3))
  from create_sales_invoice_under_price[OF h(1,2) lt ne] h lt show ?thesis by simp
qed

text \<open>
  C2 as stated fails: a sheet with no \<^verbatim>\<open>erp_customer\<close>, a line sum below the price and a
  first item other than comboex fails with the missing-customer message, which the guard
  at the top of the function throws before the prices are compared.
\<close>

theorem create_sales_invoice_no_customer_message:
  "flt (sum_of_item_lines (item sheet_no_customer)) (price sheet_no_customer)
   \<and> first_item_code (item sheet_no_customer) \<noteq> ''comboex''
   \<and> sheets site_sheets ''CSS-NC'' = Some sheet_no_customer
   \<and> fst (create_sales_invoice site_sheets ''CSS-NC'') = Inl (ValidationError no_customer_msg)
   \<and> no_customer_msg \<noteq> under_price_msg"
proof -
  have i: "item sheet_no_customer = item sheet_under" "price sheet_no_customer = price sheet_under"
    by (simp_all add: sheet_no_customer_def)
  have lt: "flt (sum_of_item_lines (item sheet_no_customer)) (price sheet_no_customer)"
    unfolding i sum_sheet_under by (simp add: sheet_under_def fl_eval)
  have fc: "first_item_code (item sheet_no_customer) \<noteq> ''comboex''"
    unfolding i by (simp add: sheet_under_def first_item_code_def lower_Kettle)
  have sh: "sheets site_sheets ''CSS-NC'' = Some sheet_no_customer"
    by (simp add: site_sheets_def site0_def)
  have r: "fst (create_sales_invoice site_sheets ''CSS-NC'') = Inl (ValidationError no_customer_msg)"
    by (simp add: create_sales_invoice_def sh Let_def sheet_no_customer_def)
  have m: "no_customer_msg \<noteq> under_price_msg"
    by (simp add: no_customer_msg_def under_price_msg_def)
  from lt fc sh r m show ?thesis by simp
qed

lemma create_sales_invoice_inserted:
  assumes "sheets s css = Some doc" and "truthy_str (erp_customer doc)"
    and "price_check (fsub (sum_of_item_lines (item doc)) (price doc)) (first_item_code (item doc)) = None"
  shows "fst (create_sales_invoice s css) = Inr (autoname s ''Sales Invoice'' (length (sales_invoices s)))
       \<and> length (sales_invoices (snd (create_sales_invoice s css))) = Suc (length (sales_invoices s))
       \<and> last (sales_invoices (snd (create_sales_invoice s css))) =
           (apply_discount (fsub (sum_of_item_lines (item doc)) (price doc))
              (first_item_code (item doc)) (invoice_of_sheet s doc))
             \<lparr>si_name := autoname s ''Sales Invoice'' (length (sales_invoices s)), si_docstatus := 1\<rparr>"
proof -
  obtain n s' where ins: "insert_sales_invoice
        (apply_discount (fsub (sum_of_item_lines (item doc)) (price doc))
           (first_item_code (item doc)) (invoice_of_sheet s doc))
        (log_call (Get_doc ''Customer Service Sheet'' css) s) = (n, s')"
    by (cases "insert_sales_invoice
        (apply_discount (fsub (sum_of_item_lines (item doc)) (price doc))
           (first_item_code (item doc)) (invoice_of_sheet s doc))
        (log_call (Get_doc ''Customer Service Sheet'' css) s)") auto
  from insert_submit_sales_invoice(1-3)[OF ins] ins assms(3)
  show ?thesis
    by (simp add: create_sales_invoice_checked[OF assms(1,2)])
qed

text \<open>
  C5.  For a sheet with a non-empty \<^verbatim>\<open>erp_customer\<close> whose line sum equals the price,
  \<^verbatim>\<open>create_sales_invoice\<close> succeeds: it returns the name of the invoice it inserted and
  submitted; the discount fields of that invoice are not set, and its lines carry the item
  code, qty and rate of the sheet's lines, in order.
\<close>

theorem create_sales_invoice_exact_price:
  assumes "sheets s css = Some doc" and "truthy_str (erp_customer doc)"
    and "feq (sum_of_item_lines (item doc)) (price doc)"
  shows "fst (create_sales_invoice s css) = Inr (autoname s ''Sales Invoice'' (length (sales_invoices s)))
       \<and> length (sales_invoices (snd (create_sales_invoice s css))) = Suc (length (sales_invoices s))
       \<and> last (sales_invoices (snd (create_sales_invoice s css))) =
           (invoice_of_sheet s doc)
             \<lparr>si_name := autoname s ''Sales Invoice'' (length (sales_invoices s)), si_docstatus := 1\<rparr>
       \<and> apply_discount_on (last (sales_invoices (snd (create_sales_invoice s css)))) = None
       \<and> discount_amount (last (sales_invoices (snd (create_sales_invoice s css)))) = None
       \<and> additional_discount_percentage (last (sales_invoices (snd (create_sales_invoice s css)))) = None
       \<and> map (\<lambda>l. (ii_item_code l, ii_qty l, ii_rate l))
              (items (last (sales_invoices (snd (create_sales_invoice s css)))))
           = map (\<lambda>row. (item_code row, qty row, rate row)) (item doc)"
proof -
  let ?d = "fsub (sum_of_item_lines (item doc)) (price doc)"
  have z: "\<not> fneg0 ?d" "\<not> fpos0 ?d" using feq_fsub_zero[OF assms(3)] by auto
  then have pc: "price_check ?d (first_item_code (item doc)) = None"
    by (simp add: price_check_def)
  have ad: "apply_discount ?d (first_item_code (item doc)) (invoice_of_sheet s doc) = invoice_of_sheet s doc"
    using z by (simp add: apply_discount_def)
  note ins = create_sales_invoice_inserted[OF assms(1,2) pc, unfolded ad]
  have "items (invoice_of_sheet s doc) =
          map (\<lambda>row. \<lparr>ii_item_code = item_code row, ii_qty = qty row, ii_rate = rate row\<rparr>) (item doc)"
    "apply_discount_on (invoice_of_sheet s doc) = None"
    "discount_amount (invoice_of_sheet s doc) = None"
    "additional_discount_percentage (invoice_of_sheet s doc) = None"
    by (simp_all add: invoice_of_sheet_def)
  with ins show ?thesis by (simp add: o_def)
qed

theorem create_sales_invoice_exact_price_witness:
  "feq (sum_of_item_lines (item sheet_equal)) (price sheet_equal)
   \<and> fst (create_sales_invoice site_sheets ''CSS-EQ'') = Inr ''Sales Invoice-''
   \<and> discount_amount (last (sales_invoices (snd (create_sales_invoice site_sheets ''CSS-EQ'')))) = None
   \<and> map (\<lambda>l. (ii_item_code l, ii_qty l, ii_rate l))
          (items (last (sales_invoices (snd (create_sales_invoice site_sheets ''CSS-EQ'')))))
       = [(''Kettle'', Fin False 1 1075, Fin False 75 1074)]"
proof -
  have h: "sheets site_sheets ''CSS-EQ'' = Some sheet_equal"
    "truthy_str (erp_customer sheet_equal)"
    "sales_invoices site_sheets = []" "autoname site_sheets = autoname0"
    by (simp_all add: site_sheets_def site0_def sheet_equal_def)
  have eq: "feq (sum_of_item_lines (item sheet_equal)) (price sheet_equal)"
    unfolding sum_sheet_equal by (simp add: sheet_equal_def fl_eval)
  have it: "map (\<lambda>row. (item_code row, qty row, rate row)) (item sheet_equal)
              = [(''Kettle'', Fin False 1 1075, Fin False 75 1074)]"
    by (simp add: sheet_equal_def)
  note t = create_sales_invoice_exact_price[OF h(1,2) eq]
  from t have a: "fst (create_sales_invoice site_sheets ''CSS-EQ'') = Inr ''Sales Invoice-''"
    by (simp add: h autoname0_def)
  from t have b: "discount_amount (last (sales_invoices (snd (create_sales_invoice site_sheets ''CSS-EQ'')))) = None"
    by blast
  from t have c: "map (\<lambda>l. (ii_item_code l, ii_qty l, ii_rate l))
          (items (last (sales_invoices (snd (create_sales_invoice site_sheets ''CSS-EQ'')))))
       = map (\<lambda>row. (item_code row, qty row, rate row)) (item sheet_equal)"
    by blast
  from a b c eq show ?thesis by (simp add: it)
qed

lemma create_sales_invoice_discount_fields:
  assumes "sheets s css = Some doc" and "truthy_str (erp_customer doc)"
    and "fgt (sum_of_item_lines (item doc)) (price doc)"
    and "first_item_code (item doc) = ''comboex''"
  shows "fst (create_sales_invoice s css) = Inr (autoname s ''Sales Invoice'' (length (sales_invoices s)))
       \<and> length (sales_invoices (snd (create_sales_invoice s css))) = Suc (length (sales_invoices s))
       \<and> last (sales_invoices (snd (create_sales_invoice s css))) =
           (invoice_of_sheet s doc)
             \<lparr>apply_discount_on := Some ''Grand Total'',
              discount_amount := Some (fsub (sum_of_item_lines (item doc)) (price doc)),
              additional_discount_percentage := Some 0,
              si_name := autoname s ''Sales Invoice'' (length (sales_invoices s)), si_docstatus := 1\<rparr>"
proof -
  let ?d = "fsub (sum_of_item_lines (item doc)) (price doc)"
  have p: "fpos0 ?d" using assms(3) by (rule fgt_fsub_pos)
  then have n: "\<not> fneg0 ?d" using fneg0_not_fpos0 by blast
  have pc: "price_check ?d (first_item_code (item doc)) = None"
    using p n assms(4) by (simp add: price_check_def)
  have ad: "apply_discount ?d (first_item_code (item doc)) (invoice_of_sheet s doc) =
      (invoice_of_sheet s doc)\<lparr>apply_discount_on := Some ''Grand Total'', discount_amount := Some ?d,
              additional_discount_percentage := Some 0\<rparr>"
    using p assms(4) by (simp add: apply_discount_def)
  from create_sales_invoice_inserted[OF assms(1,2) pc] show ?thesis
    by (simp add: ad)
qed

text \<open>
  C3.  Where the computed net (the sum of the outstanding amounts, less commission, less
  charges) and the selected total are not equal as floats, \<^verbatim>\<open>create_journal_entry2\<close> fails
  with the mismatch message; the site is as before: no store call, no Journal Entry
  inserted or submitted.
\<close>

theorem create_journal_entry2_mismatch:
  assumes "outstanding_amounts parse selected_invoices = Inr amts"
    and "py_float parse (py_or (dict_get agent_payment ''commissions_deducted'') (PInt 0)) = Inr commission"
    and "py_float parse (py_or (dict_get agent_payment ''charges_deducted'') (PInt 0)) = Inr charges"
    and "py_float parse (py_or (dict_get agent_payment ''selected_total'') (PInt 0)) = Inr selected"
    and "fne (fsub (fsub (py_sum amts) commission) charges) selected"
  shows "create_journal_entry2 parse s agent_payment selected_invoices =
           (Inl (NetMismatch (fsub (fsub (py_sum amts) commission) charges) selected), s)
         \<and> journal_entries (snd (create_journal_entry2 parse s agent_payment selected_invoices))
             = journal_entries s
         \<and> new_calls s (snd (create_journal_entry2 parse s agent_payment selected_invoices)) = []"
  using assms by (simp add: create_journal_entry2_def Let_def)

lemma float_of_int_0: "float_of_int 0 = Inr (Fin False 0 0)"
  by (simp add: float_of_int_def fl_eval)

lemma net_near:
  "fsub (fsub (py_sum [Fin False 5404319552844595 1020]) (Fin False 7205759403792794 1018))
        (Fin False 0 0) = Fin False 7205759403792793 1019"
  by (simp add: py_sum_def fl_eval)

theorem create_journal_entry2_mismatch_witness:
  "fne (Fin False 7205759403792793 1019) (Fin False 7205759403792794 1019)
   \<and> create_journal_entry2 no_parse site0 payment_near invoices_near =
       (Inl (NetMismatch (Fin False 7205759403792793 1019) (Fin False 7205759403792794 1019)), site0)"
proof -
  have a: "outstanding_amounts no_parse invoices_near = Inr [Fin False 5404319552844595 1020]"
    by (simp add: invoices_near_def dict_get_default_def)
  have c: "py_float no_parse (py_or (dict_get payment_near ''commissions_deducted'') (PInt 0))
             = Inr (Fin False 7205759403792794 1018)"
    by (simp add: payment_near_def dict_get_def py_or_def)
  have h: "py_float no_parse (py_or (dict_get payment_near ''charges_deducted'') (PInt 0))
             = Inr (Fin False 0 0)"
    by (simp add: payment_near_def dict_get_def py_or_def float_of_int_0)
  have t: "py_float no_parse (py_or (dict_get payment_near ''selected_total'') (PInt 0))
             = Inr (Fin False 7205759403792794 1019)"
    by (simp add: payment_near_def dict_get_def py_or_def)
  have ne: "fne (Fin False 7205759403792793 1019) (Fin False 7205759403792794 1019)"
    by (simp add: fl_eval)
  from create_journal_entry2_mismatch[OF a c h t, unfolded net_near, OF ne, of site0] ne
  show ?thesis by simp
qed

end
